theory Spec2Isabelle
  imports Complex_Main "HOL-Library.Word" "HOL-Library.Log_Nat" "HOL-Library.Sublist"
begin

section \<open>JavaScript values used by the front end\<close>

subsection \<open>Strings\<close>

text \<open>
  A JavaScript string is a sequence of UTF-16 code units. \<open>js\<close> embeds an ASCII literal
  of the source.
\<close>

type_synonym jsstring = "16 word list"

definition js :: "string \<Rightarrow> jsstring" where
  "js s = map of_char s"

text \<open>
  \<open>String.prototype.trim\<close> strips WhiteSpace and LineTerminator code points from both
  ends (ECMA-262: TAB, VT, FF, ZWNBSP, the Unicode category Zs; LF, CR, LS, PS). All of
  them lie in the Basic Multilingual Plane, so the test is on single code units.
\<close>

definition is_whitespace :: "16 word \<Rightarrow> bool" where
  "is_whitespace c \<longleftrightarrow>
     c = 0x0009 \<or> c = 0x000A \<or> c = 0x000B \<or> c = 0x000C \<or> c = 0x000D \<or> c = 0x0020 \<or>
     c = 0x00A0 \<or> c = 0x1680 \<or> (0x2000 \<le> c \<and> c \<le> 0x200A) \<or> c = 0x2028 \<or>
     c = 0x2029 \<or> c = 0x202F \<or> c = 0x205F \<or> c = 0x3000 \<or> c = 0xFEFF"

definition trim :: "jsstring \<Rightarrow> jsstring" where
  "trim s = rev (dropWhile is_whitespace (rev (dropWhile is_whitespace s)))"

subsection \<open>Numbers\<close>

text \<open>
  A JavaScript number is an IEEE 754 binary64 value. A finite one is represented by the
  rational it denotes (the sign of zero is dropped: no comparison of the source
  distinguishes it). \<open>round64\<close> is round-to-nearest, ties-to-even, onto the binary64
  grid: 53 significant bits, least exponent \<open>-1074\<close>, overflow to infinity.
\<close>

datatype double = Finite rat | PosInf | NegInf | NaN

definition pow2 :: "int \<Rightarrow> rat" where
  "pow2 e = (if 0 \<le> e then 2 ^ nat e else 1 / 2 ^ nat (- e))"

definition ilog2 :: "rat \<Rightarrow> int" where
  \<comment> \<open>for \<open>0 < x\<close>: the \<open>e\<close> with \<open>2^e \<le> x < 2^(e+1)\<close>\<close>
  "ilog2 x = (case quotient_of x of (p, q) \<Rightarrow>
     (let e0 = bitlen p - bitlen q in if pow2 e0 \<le> x then e0 else e0 - 1))"

definition round_even :: "rat \<Rightarrow> int" where
  "round_even y = (let f = \<lfloor>y\<rfloor>; r = y - of_int f in
     if r < 1 / 2 then f else if 1 / 2 < r then f + 1 else if even f then f else f + 1)"

definition round_pos :: "rat \<Rightarrow> double" where
  "round_pos x = (let e = max (ilog2 x) (- 1022) - 52;
                      v = of_int (round_even (x / pow2 e)) * pow2 e
                  in if e < 971 then Finite v
                     else if 2 ^ 1024 \<le> v then PosInf else Finite v)"

definition round64 :: "rat \<Rightarrow> double" where
  "round64 x = (if x = 0 then Finite 0
                else if 0 < x then round_pos x
                else (case round_pos (- x) of Finite v \<Rightarrow> Finite (- v) | _ \<Rightarrow> NegInf))"

fun dsign :: "double \<Rightarrow> int" where
  "dsign (Finite a) = (if a < 0 then - 1 else if a = 0 then 0 else 1)"
| "dsign PosInf = 1"
| "dsign NegInf = - 1"
| "dsign NaN = 0"

fun dmul :: "double \<Rightarrow> double \<Rightarrow> double" where
  "dmul NaN y = NaN"
| "dmul x NaN = NaN"
| "dmul (Finite a) (Finite b) = round64 (a * b)"
| "dmul x y = (let s = dsign x * dsign y in
                 if s = 0 then NaN else if 0 < s then PosInf else NegInf)"

fun dge :: "double \<Rightarrow> double \<Rightarrow> bool" where
  "dge NaN y = False"
| "dge x NaN = False"
| "dge (Finite a) (Finite b) = (b \<le> a)"
| "dge PosInf y = True"
| "dge x NegInf = True"
| "dge x y = False"

section \<open>The API layer (services/api.js)\<close>

type_synonym doc_id = jsstring

datatype http_method = GET | POST | DELETE

datatype http_body = NoBody | ChatBody (query: jsstring) (document_ids: "doc_id list")

record http_request =
  req_method :: http_method
  url :: jsstring
  body :: http_body

record http_error =
  message :: jsstring

record source =
  filename :: jsstring
  page :: int
  preview :: jsstring

text \<open>
  The \<open>data\<close> of a successful reply to \<open>POST /chat\<close>, as \<open>sendMessage\<close> destructures it:
  \<open>sources\<close> and \<open>confidence\<close> may be absent (\<open>undefined\<close>), a confidence that is present
  is a number.
\<close>

record chat_data =
  response :: jsstring
  data_sources :: "source list option"
  data_confidence :: "double option"

text \<open>
  \<open>chatService.sendMessage = (query, documentIds = []) =>
     api.post('/chat', { query, document_ids: documentIds })\<close>.
  An omitted argument (\<open>None\<close>) takes the default \<open>[]\<close>.
\<close>

definition chat_request :: "jsstring \<Rightarrow> doc_id list option \<Rightarrow> http_request" where
  "chat_request q documentIds =
     \<lparr>req_method = POST, url = js ''/chat'',
      body = ChatBody q (case documentIds of None \<Rightarrow> [] | Some ids \<Rightarrow> ids)\<rparr>"

text \<open>\<open>documentService.deleteDocument = (documentId) => api.delete(`/documents/${documentId}`)\<close>\<close>

definition delete_request :: "doc_id \<Rightarrow> http_request" where
  "delete_request documentId =
     \<lparr>req_method = DELETE, url = js ''/documents/'' @ documentId, body = NoBody\<rparr>"

section \<open>The chat provider (context/ChatContext.js)\<close>

record message =
  msg_id :: jsstring
  msg_text :: jsstring
  isUser :: bool
  timestamp :: jsstring
  sources :: "source list option"
  confidence :: "double option"
  isError :: bool
  msg_sessionId :: "jsstring option"

text \<open>
  The provider's three state cells, the two \<open>localStorage\<close> items it writes, and the
  requests issued so far through the axios instance (oldest first). \<open>sessionId\<close> is
  \<open>null\<close> (\<open>None\<close>) until the mount effect has run.
\<close>

record chat_state =
  messages :: "message list"
  loading :: bool
  sessionId :: "jsstring option"
  chatMessages_item :: "message list option"
  chatSessionId_item :: "jsstring option"
  requests :: "http_request list"

text \<open>
  \<open>setMessages(f)\<close> followed by the effect on \<open>[messages]\<close>, which stores a non-empty list
  under \<open>chatMessages\<close>.
\<close>

definition setMessages :: "(message list \<Rightarrow> message list) \<Rightarrow> chat_state \<Rightarrow> chat_state" where
  "setMessages f s =
     (let ms = f (messages s) in
      s\<lparr>messages := ms,
        chatMessages_item := (if 0 < length ms then Some ms else chatMessages_item s)\<rparr>)"

text \<open>What an \<open>async\<close> function hands its caller: the value it returns or the error it throws.\<close>

datatype 'a outcome = Returned 'a | Thrown http_error

text \<open>\<open>Date.now()\<close>, \<open>Math.random()\<close> and \<open>new Date().toISOString()\<close> are inputs.\<close>

record stamp =
  fresh_id :: jsstring
  now :: jsstring

text \<open>
  A function of the provider is created at a render and reads the state cells as that
  render saw them: \<open>const [loading, setLoading] = useState(false)\<close> binds \<open>loading\<close> and
  \<open>sessionId\<close> as constants of the render, and \<open>setLoading\<close> does not change them.
  \<open>render s\<close> is what a render on the state \<open>s\<close> captures.
\<close>

record closure =
  seen_loading :: bool
  seen_sessionId :: "jsstring option"

definition render :: "chat_state \<Rightarrow> closure" where
  "render s = \<lparr>seen_loading = loading s, seen_sessionId = sessionId s\<rparr>"

text \<open>
  \<open>sendMessage\<close> is an \<open>async\<close> function with one \<open>await\<close>. \<open>sendMessage_begin\<close> is the
  part that runs at the call, once the guard has passed: it appends the user's message,
  sets \<open>loading\<close> and issues the request. \<open>sendMessage_settle\<close> is the part that runs when
  the request has settled, on the state the provider has by then: \<open>Inr\<close> a reply whose
  \<open>data\<close> is an object, \<open>Inl\<close> a rejection. The \<open>sessionId\<close> both messages carry is the
  one the closure has captured. The state-setter calls are functional updates, so each
  acts on the list stored at its own time.
\<close>

definition sendMessage_begin ::
  "jsstring option \<Rightarrow> stamp \<Rightarrow> jsstring \<Rightarrow> doc_id list option \<Rightarrow> chat_state \<Rightarrow>
   http_request \<times> chat_state" where
  "sendMessage_begin sid st1 inputValue selectedDocuments s =
     (let userMessage =
            \<lparr>msg_id = fresh_id st1, msg_text = inputValue, isUser = True,
             timestamp = now st1, sources = None, confidence = None, isError = False,
             msg_sessionId = sid\<rparr>;
          s1 = (setMessages (\<lambda>prev. prev @ [userMessage]) s)\<lparr>loading := True\<rparr>;
          req = chat_request inputValue
                  (Some (case selectedDocuments of None \<Rightarrow> [] | Some d \<Rightarrow> d))
      in (req, s1\<lparr>requests := requests s1 @ [req]\<rparr>))"

definition sendMessage_settle ::
  "stamp \<Rightarrow> jsstring option \<Rightarrow> http_error + chat_data \<Rightarrow> chat_state \<Rightarrow>
   message option outcome \<times> chat_state" where
  "sendMessage_settle st2 sid reply s =
     (case reply of
        Inr d \<Rightarrow>
          (let aiMessage =
                 \<lparr>msg_id = fresh_id st2, msg_text = response d, isUser = False,
                  timestamp = now st2, sources = data_sources d,
                  confidence = data_confidence d, isError = False, msg_sessionId = sid\<rparr>
           in (Returned (Some aiMessage),
               (setMessages (\<lambda>prev. prev @ [aiMessage]) s)\<lparr>loading := False\<rparr>))
      | Inl err \<Rightarrow>
          (let errorMessage =
                 \<lparr>msg_id = fresh_id st2,
                  msg_text = js ''Sorry, I encountered an error: '' @ message err,
                  isUser = False, timestamp = now st2, sources = None, confidence = None,
                  isError = True, msg_sessionId = sid\<rparr>
           in (Thrown err,
               (setMessages (\<lambda>prev. prev @ [errorMessage]) s)\<lparr>loading := False\<rparr>)))"

text \<open>
  A call of the \<open>sendMessage\<close> created at a render that captured \<open>cl\<close>, on the state \<open>s\<close>
  the provider has at the call, when nothing else touches the provider while the request
  is awaited. The guard reads the captured \<open>loading\<close>, not the stored one. \<open>server\<close> is the
  chat service: what a request settles to.
\<close>

definition sendMessage_from ::
  "closure \<Rightarrow> (http_request \<Rightarrow> http_error + chat_data) \<Rightarrow> stamp \<Rightarrow> stamp \<Rightarrow> jsstring \<Rightarrow>
   doc_id list option \<Rightarrow> chat_state \<Rightarrow> message option outcome \<times> chat_state" where
  "sendMessage_from cl server st1 st2 inputValue selectedDocuments s =
     (if trim inputValue = [] \<or> seen_loading cl then (Returned None, s)
      else case sendMessage_begin (seen_sessionId cl) st1 inputValue selectedDocuments s of
             (req, s1) \<Rightarrow> sendMessage_settle st2 (seen_sessionId cl) (server req) s1)"

text \<open>The call through the closure of a render that has seen the current state.\<close>

definition sendMessage ::
  "(http_request \<Rightarrow> http_error + chat_data) \<Rightarrow> stamp \<Rightarrow> stamp \<Rightarrow> jsstring \<Rightarrow>
   doc_id list option \<Rightarrow> chat_state \<Rightarrow> message option outcome \<times> chat_state" where
  "sendMessage server st1 st2 inputValue selectedDocuments s =
     sendMessage_from (render s) server st1 st2 inputValue selectedDocuments s"

definition clearChat :: "jsstring \<Rightarrow> chat_state \<Rightarrow> chat_state" where
  "clearChat newSessionId s =
     (setMessages (\<lambda>_. []) s)
       \<lparr>chatMessages_item := None, sessionId := Some newSessionId,
        chatSessionId_item := Some newSessionId\<rparr>"

definition deleteMessage :: "jsstring \<Rightarrow> chat_state \<Rightarrow> chat_state" where
  "deleteMessage messageId s = setMessages (filter (\<lambda>msg. msg_id msg \<noteq> messageId)) s"

definition getMessagesBySession :: "jsstring option \<Rightarrow> chat_state \<Rightarrow> message list" where
  "getMessagesBySession sid s = filter (\<lambda>msg. msg_sessionId msg = sid) (messages s)"

definition switchToSession :: "jsstring \<Rightarrow> chat_state \<Rightarrow> chat_state" where
  "switchToSession sid s = s\<lparr>sessionId := Some sid, chatSessionId_item := Some sid\<rparr>"

definition createNewSession :: "jsstring \<Rightarrow> chat_state \<Rightarrow> jsstring \<times> chat_state" where
  "createNewSession newSessionId s =
     (newSessionId, s\<lparr>sessionId := Some newSessionId, chatSessionId_item := Some newSessionId\<rparr>)"

text \<open>The data fields of the context \<open>value\<close> handed to consumers.\<close>

record chat_value =
  v_messages :: "message list"
  v_allMessages :: "message list"
  v_loading :: bool
  v_sessionId :: "jsstring option"

definition context_value :: "chat_state \<Rightarrow> chat_value" where
  "context_value s =
     \<lparr>v_messages = filter (\<lambda>msg. msg_sessionId msg = sessionId s) (messages s),
      v_allMessages = messages s,
      v_loading = loading s,
      v_sessionId = sessionId s\<rparr>"

section \<open>The chat page (pages/Chat.js)\<close>

record chat_page =
  inputValue :: jsstring
  selectedDocuments :: "doc_id list"

text \<open>
  \<open>handleSendMessage\<close> is created at a render of the page: it reads the \<open>inputValue\<close> and
  \<open>selectedDocuments\<close> of that render (\<open>seen\<close>) and the \<open>loading\<close> and \<open>sendMessage\<close> the
  provider handed that render (\<open>cl\<close>). It clears the input, awaits \<open>sendMessage\<close> and only
  logs what it throws, so it always returns normally.
\<close>

definition handleSendMessage_from ::
  "closure \<Rightarrow> chat_page \<Rightarrow> (http_request \<Rightarrow> http_error + chat_data) \<Rightarrow> stamp \<Rightarrow> stamp \<Rightarrow>
   chat_page \<times> chat_state \<Rightarrow> unit outcome \<times> chat_page \<times> chat_state" where
  "handleSendMessage_from cl seen server st1 st2 ps =
     (case ps of (p, s) \<Rightarrow>
        if trim (inputValue seen) = [] \<or> seen_loading cl then (Returned (), p, s)
        else
          let currentInput = inputValue seen;
              p' = p\<lparr>inputValue := []\<rparr>
          in case sendMessage_from cl server st1 st2 currentInput
                    (Some (selectedDocuments seen)) s of
               (r, s') \<Rightarrow> (Returned (), p', s'))"

text \<open>The handler of a render that has seen the current page and provider state.\<close>

definition handleSendMessage ::
  "(http_request \<Rightarrow> http_error + chat_data) \<Rightarrow> stamp \<Rightarrow> stamp \<Rightarrow>
   chat_page \<times> chat_state \<Rightarrow> unit outcome \<times> chat_page \<times> chat_state" where
  "handleSendMessage server st1 st2 ps =
     (case ps of (p, s) \<Rightarrow> handleSendMessage_from (render s) p server st1 st2 (p, s))"

section \<open>Local analytics (pages/Analytics.js)\<close>

record bucket =
  bucket_range :: string
  bucket_count :: nat
  bucket_color :: string

definition bucket_index :: "double \<Rightarrow> nat" where
  "bucket_index c =
     (let confidence = dmul c (Finite 100) in
      if dge confidence (Finite 90) then 0
      else if dge confidence (Finite 70) then 1
      else if dge confidence (Finite 50) then 2
      else if dge confidence (Finite 30) then 3
      else 4)"

definition increment :: "nat \<Rightarrow> bucket list \<Rightarrow> bucket list" where
  "increment i buckets = buckets[i := (buckets ! i)\<lparr>bucket_count := bucket_count (buckets ! i) + 1\<rparr>]"

text \<open>The callback of \<open>forEach\<close>: one message, already past the filter, bumps one count.\<close>

definition count_message :: "bucket list \<Rightarrow> message \<Rightarrow> bucket list" where
  "count_message buckets msg =
     (case confidence msg of
        Some c \<Rightarrow> increment (bucket_index c) buckets
      | None \<Rightarrow> buckets)"

definition confidenceDistribution :: "message list \<Rightarrow> bucket list" where
  "confidenceDistribution msgs =
     foldl count_message
       [\<lparr>bucket_range = ''90-100%'', bucket_count = 0, bucket_color = ''#4CAF50''\<rparr>,
        \<lparr>bucket_range = ''70-89%'', bucket_count = 0, bucket_color = ''#8BC34A''\<rparr>,
        \<lparr>bucket_range = ''50-69%'', bucket_count = 0, bucket_color = ''#FFC107''\<rparr>,
        \<lparr>bucket_range = ''30-49%'', bucket_count = 0, bucket_color = ''#FF9800''\<rparr>,
        \<lparr>bucket_range = ''0-29%'', bucket_count = 0, bucket_color = ''#F44336''\<rparr>]
       (filter (\<lambda>msg. \<not> isUser msg \<and> confidence msg \<noteq> None) msgs)"

text \<open>The number a decimal literal of the source or of a JSON reply denotes.\<close>

definition literal :: "rat \<Rightarrow> double" where
  "literal x = round64 x"

section \<open>The answering core behind \<open>POST /chat\<close> and \<open>DELETE /documents/{id}\<close>\<close>

text \<open>
  The chunker, the vector index and the retriever run in the Flask back end
  (\<open>backend/vector_database.py\<close>, \<open>backend/rag_pipeline.py\<close>), which is not among the
  front-end sources. Every definition of this section is therefore modelled from the
  specification, sections 4.1 to 4.3 and 7.
\<close>

text \<open>Modelled from the spec: the error taxonomy of section 7 (back end, absent).\<close>

datatype core_error =
  ChunkingConfigError | IndexWriteError | IndexEmptyError | EmbeddingUnavailable

subsection \<open>Chunker\<close>

text \<open>
  Modelled from the spec: the Chunk of the data model (back end, absent), with its owning
  document, page, ordinal and character range.
\<close>

record chunk =
  document_id :: doc_id
  page_number :: nat
  ordinal :: nat
  char_start :: nat
  char_end :: nat
  chunk_text :: string

text \<open>
  Modelled from the spec: the choice of a cut (back end, absent). The target offset of
  the chunk that begins at \<open>start\<close> is \<open>start + C\<close> (\<open>C\<close> the target length, \<open>V\<close> the
  overlap). "Splitting should prefer natural boundaries when a boundary falls within a
  small tolerance window near the target offset, falling back to a hard character cut
  otherwise": the cut is the natural boundary nearest to the target offset among the
  \<open>tol\<close> offsets before it, and the target offset itself when there is none. Which
  offsets of a text are natural boundaries (\<open>boundary\<close>) and the width of the window
  (\<open>tol\<close>) are not fixed by the spec and are parameters. A boundary counts only when the
  chunk it ends is longer than the overlap, so that the next chunk begins later.
\<close>

definition natural_cut :: "(nat \<Rightarrow> bool) \<Rightarrow> nat \<Rightarrow> nat \<Rightarrow> nat \<Rightarrow> nat \<Rightarrow> nat" where
  "natural_cut boundary tol C V start =
     (case filter (\<lambda>p. boundary p \<and> start + V < p) (rev [start + C - tol..<start + C]) of
        [] \<Rightarrow> start + C
      | p # rest \<Rightarrow> p)"

lemma natural_cut_bounds:
  assumes "V < C"
  shows "start + V < natural_cut boundary tol C V start"
    and "natural_cut boundary tol C V start \<le> start + C"
proof -
  let ?ps = "filter (\<lambda>p. boundary p \<and> start + V < p) (rev [start + C - tol..<start + C])"
  have "start + V < natural_cut boundary tol C V start
      \<and> natural_cut boundary tol C V start \<le> start + C"
  proof (cases ?ps)
    case Nil
    then show ?thesis using assms by (simp add: natural_cut_def)
  next
    case (Cons p rest)
    then have "p \<in> set ?ps" by simp
    then have "start + V < p" "p < start + C" by auto
    then show ?thesis using Cons by (simp add: natural_cut_def)
  qed
  then show "start + V < natural_cut boundary tol C V start"
    and "natural_cut boundary tol C V start \<le> start + C"
    by simp_all
qed

text \<open>
  Modelled from the spec: the chunker's splitting loop (back end, absent). From offset
  \<open>start\<close> it cuts at \<open>natural_cut\<close>, or takes \<open>[start, L)\<close> when no more than \<open>C\<close>
  characters remain ("a final remainder shorter than the target length is kept as its
  own chunk"; \<open>L\<close> the length of the text). The next chunk begins \<open>V\<close> characters before
  the cut, which is \<open>C - V\<close> characters into the span just cut whenever the cut is the
  hard one, and keeps the overlap when the cut is moved to a natural boundary. It stops
  when a chunk reaches the end of the text, so no chunk is empty.
\<close>

function chunk_spans ::
  "(nat \<Rightarrow> bool) \<Rightarrow> nat \<Rightarrow> nat \<Rightarrow> nat \<Rightarrow> nat \<Rightarrow> nat \<Rightarrow> (nat \<times> nat) list" where
  "chunk_spans boundary tol C V L start =
     (if C \<le> V \<or> L \<le> start then []
      else if L \<le> start + C then [(start, L)]
      else (start, natural_cut boundary tol C V start)
           # chunk_spans boundary tol C V L (natural_cut boundary tol C V start - V))"
  by pat_completeness auto
termination
proof (relation "measure (\<lambda>(boundary, tol, C, V, L, start). L - start)")
  show "wf (measure (\<lambda>(boundary, tol, C, V, L, start). L - start))"
    by simp
next
  fix boundary :: "nat \<Rightarrow> bool" and tol C V L start :: nat
  assume "\<not> (C \<le> V \<or> L \<le> start)" and "\<not> L \<le> start + C"
  then have "V < C" "start < L" by simp_all
  moreover from \<open>V < C\<close> have "start + V < natural_cut boundary tol C V start"
    by (rule natural_cut_bounds)
  ultimately show
    "((boundary, tol, C, V, L, natural_cut boundary tol C V start - V),
      (boundary, tol, C, V, L, start))
       \<in> measure (\<lambda>(boundary, tol, C, V, L, start). L - start)"
    by simp
qed

declare chunk_spans.simps [simp del]



text \<open>The number of spans cut from \<open>r\<close> remaining characters by hard cuts, in closed form.\<close>

definition n_chunks :: "nat \<Rightarrow> nat \<Rightarrow> nat \<Rightarrow> nat" where
  "n_chunks C V r = max 1 ((r - V + (C - V) - 1) div (C - V))"

record chunker_config =
  target_length :: nat
  overlap :: nat
  tolerance :: nat


text \<open>
  Modelled from the spec: \<open>chunk(document_id, page_number, text)\<close> (back end, absent).
  An overlap that is not strictly less than the target length is a configuration
  error; otherwise the chunks carry the owning document, the page, their ordinal, their
  character range and the characters of that range. \<open>natural txt p\<close> says that offset \<open>p\<close>
  of \<open>txt\<close> is a natural boundary.
\<close>

definition chunk ::
  "(string \<Rightarrow> nat \<Rightarrow> bool) \<Rightarrow> chunker_config \<Rightarrow> doc_id \<Rightarrow> nat \<Rightarrow> string \<Rightarrow>
   core_error + chunk list" where
  "chunk natural cfg doc pg txt =
     (if target_length cfg \<le> overlap cfg then Inl ChunkingConfigError
      else Inr (map (\<lambda>(i, (a, b)).
                  \<lparr>document_id = doc, page_number = pg, ordinal = i, char_start = a,
                   char_end = b, chunk_text = take (b - a) (drop a txt)\<rparr>)
                (enumerate 0 (chunk_spans (natural txt) (tolerance cfg) (target_length cfg)
                                (overlap cfg) (length txt) 0))))"





subsection \<open>Vector index\<close>

type_synonym vector = "real list"

text \<open>
  Modelled from the spec: the Vector Entry (chunk id, embedding vector, chunk metadata
  snapshot) and the index (back end, absent). The chunk id is the owning document with
  the ordinal; the entries are kept in insertion order.
\<close>

record vector_entry =
  entry_owner :: doc_id
  entry_ordinal :: nat
  embedding :: vector
  metadata :: chunk

record index =
  entries :: "vector_entry list"
  dimension :: "nat option"

definition empty_index :: index where
  "empty_index = \<lparr>entries = [], dimension = None\<rparr>"

text \<open>
  Modelled from the spec: \<open>add(document_id, list of (Chunk, vector))\<close> (back end, absent).
  The entries are appended in order, all or none; the dimension is fixed by the first
  vector ever inserted, and a vector of another length is an \<open>IndexWriteError\<close>.
\<close>

definition add :: "doc_id \<Rightarrow> (chunk \<times> vector) list \<Rightarrow> index \<Rightarrow> core_error + index" where
  "add doc batch idx =
     (let dim = (case dimension idx of
                   Some d \<Rightarrow> Some d
                 | None \<Rightarrow> (case batch of [] \<Rightarrow> None | (c, v) # rest \<Rightarrow> Some (length v)))
      in if list_ex (\<lambda>(c, v). Some (length v) \<noteq> dim) batch then Inl IndexWriteError
         else Inr \<lparr>entries = entries idx @
                     map (\<lambda>(c, v). \<lparr>entry_owner = doc, entry_ordinal = ordinal c,
                                     embedding = v, metadata = c\<rparr>) batch,
                   dimension = dim\<rparr>)"

text \<open>
  Modelled from the spec: \<open>delete(document_id)\<close> (back end, absent). It removes every
  entry the document owns and cannot fail.
\<close>

definition delete :: "doc_id \<Rightarrow> index \<Rightarrow> index" where
  "delete doc idx = idx\<lparr>entries := filter (\<lambda>e. entry_owner e \<noteq> doc) (entries idx)\<rparr>"

text \<open>
  Modelled from the spec: the similarity of \<open>search\<close> (back end, absent), the cosine of
  the two vectors brought from \<open>[-1, 1]\<close> to \<open>[0, 1]\<close>. The spec gives no value for a zero
  vector; the quotient is then \<open>0\<close>, the cosine of orthogonal vectors.
\<close>

definition dot :: "vector \<Rightarrow> vector \<Rightarrow> real" where
  "dot u v = sum_list (map2 (*) u v)"

definition cosine :: "vector \<Rightarrow> vector \<Rightarrow> real" where
  "cosine u v = dot u v / (sqrt (dot u u) * sqrt (dot v v))"

definition similarity :: "vector \<Rightarrow> vector \<Rightarrow> real" where
  "similarity u v = (cosine u v + 1) / 2"

text \<open>
  Modelled from the spec: the Retrieval Result (chunk id, similarity score, chunk text,
  metadata) (back end, absent).
\<close>

record retrieval_result =
  result_owner :: doc_id
  result_ordinal :: nat
  score :: real
  result_text :: string
  result_metadata :: chunk

definition to_result :: "vector \<Rightarrow> vector_entry \<Rightarrow> retrieval_result" where
  "to_result q e =
     \<lparr>result_owner = entry_owner e, result_ordinal = entry_ordinal e,
      score = similarity q (embedding e), result_text = chunk_text (metadata e),
      result_metadata = metadata e\<rparr>"

text \<open>
  Modelled from the spec: the ranking of \<open>search\<close> (back end, absent), by descending
  similarity, an earlier inserted entry first among equals. \<open>sort_key\<close> is the stable
  insertion sort of the library.
\<close>

definition ranked :: "vector \<Rightarrow> vector_entry list \<Rightarrow> retrieval_result list" where
  "ranked q es = sort_key (\<lambda>r. - score r) (map (to_result q) es)"

text \<open>
  Modelled from the spec: \<open>search(query_vector, k)\<close> (back end, absent): up to \<open>k\<close> results
  of the ranking, and \<open>IndexEmptyError\<close> on an index without entries.
\<close>

definition search :: "vector \<Rightarrow> nat \<Rightarrow> index \<Rightarrow> core_error + retrieval_result list" where
  "search q k idx =
     (if entries idx = [] then Inl IndexEmptyError
      else Inr (take k (ranked q (entries idx))))"

text \<open>
  What can happen to an index after a deletion: further batches and deletions. A batch
  that is refused leaves the index as it was.
\<close>

datatype index_op = Add doc_id "(chunk \<times> vector) list" | Delete doc_id

fun apply_op :: "index \<Rightarrow> index_op \<Rightarrow> index" where
  "apply_op idx (Add doc batch) = (case add doc batch idx of Inl e \<Rightarrow> idx | Inr idx' \<Rightarrow> idx')"
| "apply_op idx (Delete doc) = delete doc idx"

fun adds_to :: "doc_id \<Rightarrow> index_op \<Rightarrow> bool" where
  "adds_to doc (Add doc' batch) = (doc' = doc)"
| "adds_to doc (Delete doc') = False"

subsection \<open>Retriever\<close>

text \<open>
  Modelled from the spec: \<open>retrieve(query_text, k=5, allowed_document_ids=None)\<close> (back
  end, absent). The query is embedded by the embedding capability \<open>embedder\<close>, the whole
  index is ranked, a non-empty \<open>allowed_document_ids\<close> keeps the results of those
  documents, and the first \<open>k\<close> of what is left are the candidates. An empty index is
  "no documents available": an empty result, not an error. When every candidate scores
  below the minimum threshold the result is empty. The spec leaves the confidence
  formula to the implementation, so it is the parameter \<open>aggregate\<close>; without results
  the confidence is \<open>0\<close>.
\<close>

definition retrieve ::
  "(string \<Rightarrow> core_error + vector) \<Rightarrow> (real list \<Rightarrow> real) \<Rightarrow> real \<Rightarrow> index \<Rightarrow>
   string \<Rightarrow> nat option \<Rightarrow> doc_id list option \<Rightarrow>
   core_error + retrieval_result list \<times> real" where
  "retrieve embedder aggregate min_similarity idx query_text k allowed_document_ids =
     (case embedder query_text of
        Inl e \<Rightarrow> Inl e
      | Inr q \<Rightarrow>
          (case search q (length (entries idx)) idx of
             Inl e \<Rightarrow> Inr ([], 0)
           | Inr everything \<Rightarrow>
               (let permitted =
                      (case allowed_document_ids of
                         None \<Rightarrow> everything
                       | Some ids \<Rightarrow>
                           if ids = [] then everything
                           else filter (\<lambda>r. result_owner r \<in> set ids) everything);
                    candidates = take (case k of None \<Rightarrow> 5 | Some n \<Rightarrow> n) permitted;
                    results = (if list_all (\<lambda>r. score r < min_similarity) candidates
                               then [] else candidates)
                in Inr (results, if results = [] then 0 else aggregate (map score results)))))"

text \<open>
  Modelled from the spec: an index with native filtered search (back end, absent): the
  search runs over the entries of the allowed documents only.
\<close>

definition restrict :: "doc_id list \<Rightarrow> index \<Rightarrow> index" where
  "restrict ids idx = idx\<lparr>entries := filter (\<lambda>e. entry_owner e \<in> set ids) (entries idx)\<rparr>"

text \<open>
  The top \<open>k\<close> within the allowed subset, in the spec's words: the ranking of the allowed
  documents' entries alone, cut at \<open>k\<close> (5 when \<open>k\<close> is not given).
\<close>

definition top_allowed :: "vector \<Rightarrow> nat option \<Rightarrow> doc_id list \<Rightarrow> index \<Rightarrow> retrieval_result list" where
  "top_allowed q k ids idx =
     take (case k of None \<Rightarrow> 5 | Some n \<Rightarrow> n)
       (ranked q (filter (\<lambda>e. entry_owner e \<in> set ids) (entries idx)))"

section \<open>Concrete inputs\<close>

text \<open>A chat service whose every request rejects, an idle provider, and three stamps.\<close>

definition failing_server :: "http_request \<Rightarrow> http_error + chat_data" where
  "failing_server req = Inl \<lparr>message = js ''Network Error''\<rparr>"

definition idle_state :: chat_state where
  "idle_state =
     \<lparr>messages = [], loading = False, sessionId = Some (js ''session_1''),
      chatMessages_item = None, chatSessionId_item = Some (js ''session_1''),
      requests = []\<rparr>"

definition stamp1 :: stamp where
  "stamp1 = \<lparr>fresh_id = js ''msg_1'', now = js ''t1''\<rparr>"

definition stamp2 :: stamp where
  "stamp2 = \<lparr>fresh_id = js ''msg_2'', now = js ''t2''\<rparr>"


text \<open>Two documents, and a page of 2300 characters and one of 100 without a sentence end.\<close>

definition doc_a :: doc_id where
  "doc_a = js ''doc_a''"

definition doc_b :: doc_id where
  "doc_b = js ''doc_b''"




text \<open>
  An index holding one chunk of each document, inserted in this order, with orthogonal
  unit embeddings, and an embedding capability that maps every query onto the first
  axis.
\<close>

definition chunk_a :: chunk where
  "chunk_a = \<lparr>document_id = doc_a, page_number = 1, ordinal = 0, char_start = 0,
              char_end = 5, chunk_text = ''alpha''\<rparr>"

definition chunk_b :: chunk where
  "chunk_b = \<lparr>document_id = doc_b, page_number = 1, ordinal = 0, char_start = 0,
              char_end = 4, chunk_text = ''beta''\<rparr>"

definition index_ab :: index where
  "index_ab =
     \<lparr>entries =
        [\<lparr>entry_owner = doc_a, entry_ordinal = 0, embedding = [1, 0], metadata = chunk_a\<rparr>,
         \<lparr>entry_owner = doc_b, entry_ordinal = 0, embedding = [0, 1], metadata = chunk_b\<rparr>],
      dimension = Some 2\<rparr>"

definition axis_embedder :: "string \<Rightarrow> core_error + vector" where
  "axis_embedder query_text = Inr [1, 0]"

text \<open>One admissible confidence formula: the similarity of the top result.\<close>

definition top_score :: "real list \<Rightarrow> real" where
  "top_score scores = (case scores of [] \<Rightarrow> 0 | s # rest \<Rightarrow> s)"

section \<open>Properties of the front end\<close>

subsection \<open>The guard of \<open>sendMessage\<close>\<close>


lemma chat_request_default:
  "chat_request q (Some (case sel of None \<Rightarrow> [] | Some d \<Rightarrow> d)) = chat_request q sel"
  by (cases sel) (simp_all add: chat_request_def)




subsection \<open>A failing request\<close>

text \<open>
  C3. When the guard passes and the request to the chat service rejects with \<open>err\<close>,
  \<open>sendMessage\<close> appends the user's message and then exactly one non-user message with
  \<open>isError: true\<close> whose text ends with \<open>err.message\<close>, sets \<open>loading\<close> back to false
  and keeps every message stored before. The error message belongs to the session of
  the call, so it is the last message consumers see. Whatever state \<open>mid\<close> the provider
  has reached when the request rejects, the rejection appends that one message to the
  list stored then and clears \<open>loading\<close>. \<open>sendMessage\<close> itself rethrows \<open>err\<close>; the
  page's \<open>handleSendMessage\<close> catches it and returns normally.
\<close>

theorem sendMessage_failure_is_structured:
  assumes "trim input \<noteq> []" and "\<not> loading s"
    and "server (chat_request input sel) = Inl err"
  shows "\<exists>userMessage errorMessage s'.
      sendMessage server tu tr input sel s = (Thrown err, s')
    \<and> messages s' = messages s @ [userMessage, errorMessage]
    \<and> isUser userMessage \<and> msg_text userMessage = input
    \<and> \<not> isUser errorMessage \<and> isError errorMessage
    \<and> msg_text errorMessage = js ''Sorry, I encountered an error: '' @ message err
    \<and> suffix (message err) (msg_text errorMessage)
    \<and> loading s' = False
    \<and> take (length (messages s)) (messages s') = messages s
    \<and> filter (\<lambda>m. \<not> isUser m) (drop (length (messages s)) (messages s')) = [errorMessage]
    \<and> requests s' = requests s @ [chat_request input sel]
    \<and> last (v_messages (context_value s')) = errorMessage
    \<and> fst (sendMessage_settle tr (sessionId s) (Inl err) mid) = Thrown err
    \<and> messages (snd (sendMessage_settle tr (sessionId s) (Inl err) mid))
        = messages mid @ [errorMessage]
    \<and> loading (snd (sendMessage_settle tr (sessionId s) (Inl err) mid)) = False
    \<and> handleSendMessage server tu tr (\<lparr>inputValue = input, selectedDocuments = docs\<rparr>, s)
        = (Returned (), \<lparr>inputValue = [], selectedDocuments = docs\<rparr>,
           snd (sendMessage server tu tr input (Some docs) s))"
proof -
  define um where "um =
     \<lparr>msg_id = fresh_id tu, msg_text = input, isUser = True, timestamp = now tu,
      sources = None, confidence = None, isError = False, msg_sessionId = sessionId s\<rparr>"
  define em where "em =
     \<lparr>msg_id = fresh_id tr, msg_text = js ''Sorry, I encountered an error: '' @ message err,
      isUser = False, timestamp = now tr, sources = None, confidence = None,
      isError = True, msg_sessionId = sessionId s\<rparr>"
  define s' where "s' =
     s\<lparr>messages := messages s @ [um, em],
       chatMessages_item := Some (messages s @ [um, em]),
       requests := requests s @ [chat_request input sel],
       loading := False\<rparr>"
  have run: "sendMessage server tu tr input sel s = (Thrown err, s')"
    using assms
    by (simp add: sendMessage_def sendMessage_from_def render_def sendMessage_begin_def
        sendMessage_settle_def setMessages_def chat_request_default Let_def um_def em_def
        s'_def)
  have late: "fst (sendMessage_settle tr (sessionId s) (Inl err) mid) = Thrown err"
    "messages (snd (sendMessage_settle tr (sessionId s) (Inl err) mid)) = messages mid @ [em]"
    "loading (snd (sendMessage_settle tr (sessionId s) (Inl err) mid)) = False"
    by (simp_all add: sendMessage_settle_def setMessages_def Let_def em_def)
  have page:
    "handleSendMessage server tu tr (\<lparr>inputValue = input, selectedDocuments = docs\<rparr>, s)
       = (Returned (), \<lparr>inputValue = [], selectedDocuments = docs\<rparr>,
          snd (sendMessage server tu tr input (Some docs) s))"
    using assms(1,2)
    by (simp add: handleSendMessage_def handleSendMessage_from_def sendMessage_def render_def
        split: prod.splits)
  have view: "last (v_messages (context_value s')) = em"
    by (simp add: context_value_def s'_def em_def)
  have stored: "messages s' = messages s @ [um, em]" "loading s' = False"
    "requests s' = requests s @ [chat_request input sel]"
    by (simp_all add: s'_def)
  have shape: "isUser um" "msg_text um = input" "\<not> isUser em" "isError em"
    "msg_text em = js ''Sorry, I encountered an error: '' @ message err"
    by (simp_all add: um_def em_def)
  have "suffix (message err) (msg_text em)"
    by (simp add: shape(5) suffix_def)
  with run late page view stored shape show ?thesis
    by (intro exI [of _ um] exI [of _ em] exI [of _ s']) simp
qed

theorem sendMessage_failure_is_structured_witness:
  "trim (js ''hi'') \<noteq> [] \<and> \<not> loading idle_state
   \<and> failing_server (chat_request (js ''hi'') None) = Inl \<lparr>message = js ''Network Error''\<rparr>
   \<and> fst (sendMessage failing_server stamp1 stamp2 (js ''hi'') None idle_state)
       = Thrown \<lparr>message = js ''Network Error''\<rparr>
   \<and> map isUser (messages (snd (sendMessage failing_server stamp1 stamp2 (js ''hi'') None idle_state)))
       = [True, False]
   \<and> isError (last (messages (snd (sendMessage failing_server stamp1 stamp2 (js ''hi'') None idle_state))))
   \<and> loading (snd (sendMessage failing_server stamp1 stamp2 (js ''hi'') None idle_state)) = False"
proof -
  have h1: "trim (js ''hi'') \<noteq> []"
    by (simp add: js_def trim_def is_whitespace_def)
  have h2: "\<not> loading idle_state"
    by (simp add: idle_state_def)
  have h3: "failing_server (chat_request (js ''hi'') None) = Inl \<lparr>message = js ''Network Error''\<rparr>"
    by (simp add: failing_server_def)
  have h4: "messages idle_state = []"
    by (simp add: idle_state_def)
  from sendMessage_failure_is_structured
    [where input = "js ''hi''" and s = idle_state and server = failing_server and sel = None
       and tu = stamp1 and tr = stamp2 and docs = "[]", OF h1 h2 h3]
  obtain um em s' where
    "sendMessage failing_server stamp1 stamp2 (js ''hi'') None idle_state
       = (Thrown \<lparr>message = js ''Network Error''\<rparr>, s')"
    "messages s' = messages idle_state @ [um, em]"
    "isUser um" "\<not> isUser em" "isError em" "loading s' = False"
    by blast
  with h1 h2 h3 h4 show ?thesis
    by simp
qed

subsection \<open>The session view\<close>

text \<open>
  C8. In every state the \<open>messages\<close> handed to consumers are the stored messages of the
  current session, in stored order, and \<open>allMessages\<close> is the whole stored list.
  \<open>switchToSession\<close> sets the current session id (and its \<open>localStorage\<close> copy) and
  nothing else: the stored list, \<open>loading\<close>, the saved messages and the requests issued
  stay as they were.
\<close>

theorem context_value_is_session_view:
  "v_messages (context_value s)
     = filter (\<lambda>msg. msg_sessionId msg = sessionId s) (messages s)
   \<and> subseq (v_messages (context_value s)) (messages s)
   \<and> set (v_messages (context_value s))
       = {msg \<in> set (messages s). msg_sessionId msg = sessionId s}
   \<and> v_allMessages (context_value s) = messages s
   \<and> messages (switchToSession sid s) = messages s
   \<and> v_allMessages (context_value (switchToSession sid s)) = messages s
   \<and> v_messages (context_value (switchToSession sid s))
       = filter (\<lambda>msg. msg_sessionId msg = Some sid) (messages s)
   \<and> sessionId (switchToSession sid s) = Some sid
   \<and> chatSessionId_item (switchToSession sid s) = Some sid
   \<and> loading (switchToSession sid s) = loading s
   \<and> chatMessages_item (switchToSession sid s) = chatMessages_item s
   \<and> requests (switchToSession sid s) = requests s"
  by (simp add: context_value_def switchToSession_def)

subsection \<open>Confidence buckets\<close>

lemma bucket_index_less: "bucket_index c < 5"
  by (simp add: bucket_index_def Let_def)

lemma foldl_count_message:
  assumes "length bs = 5"
  shows "length (foldl count_message bs xs) = 5
       \<and> map bucket_range (foldl count_message bs xs) = map bucket_range bs
       \<and> map bucket_count (foldl count_message bs xs) =
           map (\<lambda>i. bucket_count (bs ! i)
                  + length (filter (\<lambda>msg. \<exists>c. confidence msg = Some c \<and> bucket_index c = i) xs))
             [0..<5]"
  using assms
proof (induction xs arbitrary: bs)
  case Nil
  then show ?case by (simp add: list_eq_iff_nth_eq)
next
  case (Cons x xs)
  show ?case
  proof (cases "confidence x")
    case None
    then have "count_message bs x = bs" by (simp add: count_message_def)
    with Cons None show ?thesis by simp
  next
    case (Some c)
    let ?bs' = "increment (bucket_index c) bs"
    have st: "count_message bs x = ?bs'"
      using Some by (simp add: count_message_def)
    have len: "length ?bs' = 5"
      using Cons.prems by (simp add: increment_def)
    have rng: "map bucket_range ?bs' = map bucket_range bs"
      using Cons.prems bucket_index_less [of c]
      by (auto simp: increment_def list_eq_iff_nth_eq nth_list_update)
    have cnt: "\<And>i. i < 5 \<Longrightarrow>
        bucket_count (?bs' ! i) = bucket_count (bs ! i) + (if bucket_index c = i then 1 else 0)"
      using Cons.prems bucket_index_less [of c] by (simp add: increment_def nth_list_update)
    show ?thesis
      using Cons.IH [OF len] Some cnt Cons.prems
      by (simp add: st rng list_eq_iff_nth_eq)
  qed
qed

lemma partition_count:
  fixes f :: "'a \<Rightarrow> nat"
  assumes "\<And>x. P x \<Longrightarrow> f x < n"
  shows "(\<Sum>i<n. length (filter (\<lambda>x. P x \<and> f x = i) xs)) = length (filter P xs)"
proof (induction xs)
  case Nil
  then show ?case by simp
next
  case (Cons x xs)
  have "(\<Sum>i<n. length (filter (\<lambda>x. P x \<and> f x = i) (x # xs)))
      = (\<Sum>i<n. (if P x \<and> f x = i then 1 else 0) + length (filter (\<lambda>x. P x \<and> f x = i) xs))"
    by (rule sum.cong) simp_all
  also have "\<dots> = (\<Sum>i<n. if P x \<and> f x = i then 1 else 0) + length (filter P xs)"
    by (simp only: sum.distrib Cons.IH)
  also have "(\<Sum>i<n. if P x \<and> f x = i then 1 else 0) = (if P x then 1 else (0::nat))"
  proof (cases "P x")
    case True
    then have "f x < n" by (rule assms)
    then have "(\<Sum>i<n. if f x = i then 1 else 0) = (1::nat)"
      by (simp add: sum.delta')
    with True show ?thesis by simp
  next
    case False
    then show ?thesis by simp
  qed
  finally show ?case by simp
qed

lemma boundary_literals:
  "bucket_index (literal (9 / 10)) = 0" "bucket_index (literal (7 / 10)) = 1"
  "bucket_index (literal (5 / 10)) = 2" "bucket_index (literal (3 / 10)) = 3"
  by code_simp+

text \<open>
  C10. The count of bucket \<open>i\<close> is the number of non-user messages with a defined
  confidence whose \<open>bucket_index\<close> is \<open>i\<close>; \<open>bucket_index\<close> is a function into the five
  indices, so each such message is counted once and the five counts add up to the number
  of such messages. The numbers 0.9, 0.7, 0.5 and 0.3, multiplied by 100 in binary64,
  reach their bound and fall into the higher bucket.
\<close>

theorem confidence_buckets_partition:
  "map bucket_count (confidenceDistribution msgs) =
     map (\<lambda>i. length (filter (\<lambda>msg. \<not> isUser msg
                 \<and> (\<exists>c. confidence msg = Some c \<and> bucket_index c = i)) msgs)) [0..<5]
   \<and> map bucket_range (confidenceDistribution msgs)
       = [''90-100%'', ''70-89%'', ''50-69%'', ''30-49%'', ''0-29%'']
   \<and> sum_list (map bucket_count (confidenceDistribution msgs))
       = length (filter (\<lambda>msg. \<not> isUser msg \<and> confidence msg \<noteq> None) msgs)
   \<and> bucket_index (literal (9 / 10)) = 0 \<and> bucket_index (literal (7 / 10)) = 1
   \<and> bucket_index (literal (5 / 10)) = 2 \<and> bucket_index (literal (3 / 10)) = 3"
proof -
  define init where "init =
     [\<lparr>bucket_range = ''90-100%'', bucket_count = 0, bucket_color = ''#4CAF50''\<rparr>,
      \<lparr>bucket_range = ''70-89%'', bucket_count = 0, bucket_color = ''#8BC34A''\<rparr>,
      \<lparr>bucket_range = ''50-69%'', bucket_count = 0, bucket_color = ''#FFC107''\<rparr>,
      \<lparr>bucket_range = ''30-49%'', bucket_count = 0, bucket_color = ''#FF9800''\<rparr>,
      \<lparr>bucket_range = ''0-29%'', bucket_count = (0::nat), bucket_color = ''#F44336''\<rparr>]"
  define P where "P = (\<lambda>msg::message. \<not> isUser msg \<and> confidence msg \<noteq> None)"
  define Q where "Q = (\<lambda>i (msg::message). \<not> isUser msg
     \<and> (\<exists>c. confidence msg = Some c \<and> bucket_index c = i))"
  define f where "f = (\<lambda>msg::message. bucket_index (the (confidence msg)))"
  have cd: "confidenceDistribution msgs = foldl count_message init (filter P msgs)"
    by (simp add: confidenceDistribution_def init_def P_def)
  have len: "length init = 5"
    by (simp add: init_def)
  have zero: "\<And>i. i < 5 \<Longrightarrow> bucket_count (init ! i) = 0"
    by (simp add: init_def nth_Cons')
  have flt: "\<And>i. filter (\<lambda>msg. \<exists>c. confidence msg = Some c \<and> bucket_index c = i) (filter P msgs)
      = filter (Q i) msgs"
    by (auto simp: P_def Q_def intro: filter_cong)
  have "map bucket_count (foldl count_message init (filter P msgs)) =
      map (\<lambda>i. bucket_count (init ! i)
             + length (filter (\<lambda>msg. \<exists>c. confidence msg = Some c \<and> bucket_index c = i)
                 (filter P msgs))) [0..<5]"
    using foldl_count_message [OF len, of "filter P msgs"] by blast
  also have "\<dots> = map (\<lambda>i. length (filter (Q i) msgs)) [0..<5]"
    by (rule map_cong [OF refl]) (simp only: zero flt set_upt atLeastLessThan_iff add_0)
  finally have counts:
    "map bucket_count (confidenceDistribution msgs)
       = map (\<lambda>i. length (filter (Q i) msgs)) [0..<5]"
    by (simp only: cd)
  have "map bucket_range (foldl count_message init (filter P msgs)) = map bucket_range init"
    using foldl_count_message [OF len, of "filter P msgs"] by blast
  then have ranges: "map bucket_range (confidenceDistribution msgs)
       = [''90-100%'', ''70-89%'', ''50-69%'', ''30-49%'', ''0-29%'']"
    by (simp add: cd init_def)
  have Q_eq: "\<And>i. Q i = (\<lambda>msg. P msg \<and> f msg = i)"
    by (auto simp: Q_def P_def f_def)
  have "sum_list (map (\<lambda>i. length (filter (Q i) msgs)) [0..<5])
      = (\<Sum>i<5. length (filter (\<lambda>msg. P msg \<and> f msg = i) msgs))"
    by (simp only: interv_sum_list_conv_sum_set_nat set_upt atLeast0LessThan Q_eq)
  also have "\<dots> = length (filter P msgs)"
    by (rule partition_count) (simp add: f_def bucket_index_less)
  finally have total:
    "sum_list (map bucket_count (confidenceDistribution msgs)) = length (filter P msgs)"
    by (simp only: counts)
  show ?thesis
    using counts ranges total boundary_literals
    unfolding P_def Q_def by (simp only: simp_thms)
qed

section \<open>Properties of the modelled core\<close>

subsection \<open>Chunk count and overlap\<close>





lemma full_before_last:
  assumes "V < C" "Suc i < n_chunks C V L"
  shows "i * (C - V) + C < L"
proof -
  define S where "S = C - V"
  have S: "0 < S" using assms(1) by (simp add: S_def)
  have "Suc (Suc i) \<le> (L - V + S - 1) div S"
    using assms(2) unfolding n_chunks_def S_def by simp
  then have "Suc (Suc i) * S \<le> L - V + S - 1"
    using S by (simp only: less_eq_div_iff_mult_less_eq)
  then have "i * S + S + S \<le> L - V + S - 1" by (simp add: algebra_simps)
  then have "i * S + S + V < L" using S by arith
  then show ?thesis using assms(1) unfolding S_def by simp
qed

lemma start_before_end:
  assumes "V < C" "1 \<le> L" "i < n_chunks C V L"
  shows "i * (C - V) < L"
proof (cases i)
  case 0
  then show ?thesis using assms(2) by simp
next
  case (Suc j)
  then have "j * (C - V) + C < L" using assms by (simp add: full_before_last)
  then show ?thesis using Suc assms(1) by simp
qed

















subsection \<open>Deletion from the index\<close>

lemma set_ranked: "set (ranked q es) = to_result q ` set es"
  by (simp add: ranked_def)

lemma length_ranked: "length (ranked q es) = length es"
  by (simp add: ranked_def)

lemma result_owner_to_result: "result_owner (to_result q e) = entry_owner e"
  by (simp add: to_result_def)

lemma search_owners:
  assumes "search q k idx = Inr rs" and "r \<in> set rs"
  shows "result_owner r \<in> entry_owner ` set (entries idx)"
proof -
  from assms(1) have "rs = take k (ranked q (entries idx))"
    by (simp add: search_def split: if_splits)
  with assms(2) have "r \<in> set (ranked q (entries idx))"
    by (auto dest: in_set_takeD)
  then obtain e where "e \<in> set (entries idx)" "r = to_result q e"
    by (auto simp: set_ranked)
  then show ?thesis
    by (auto simp: result_owner_to_result)
qed

lemma owners_delete: "entry_owner ` set (entries (delete doc idx)) = entry_owner ` set (entries idx) - {doc}"
  by (auto simp: delete_def)

lemma owners_apply_op:
  assumes "\<not> adds_to doc op" and "doc \<notin> entry_owner ` set (entries idx)"
  shows "doc \<notin> entry_owner ` set (entries (apply_op idx op))"
proof (cases op)
  case (Add d batch)
  with assms(1) have ne: "d \<noteq> doc" by simp
  show ?thesis
  proof (cases "add d batch idx")
    case (Inl e)
    with Add assms(2) show ?thesis by simp
  next
    case (Inr idx')
    then have "entry_owner ` set (entries idx') \<subseteq> entry_owner ` set (entries idx) \<union> {d}"
      by (auto simp: add_def Let_def split: if_splits)
    with Add Inr assms(2) ne show ?thesis by auto
  qed
next
  case (Delete d)
  with assms(2) show ?thesis by (auto simp: owners_delete)
qed

lemma owners_foldl:
  assumes "list_all (\<lambda>op. \<not> adds_to doc op) ops" and "doc \<notin> entry_owner ` set (entries idx)"
  shows "doc \<notin> entry_owner ` set (entries (foldl apply_op idx ops))"
  using assms
proof (induction ops arbitrary: idx)
  case Nil
  then show ?case by simp
next
  case (Cons op ops)
  from Cons.prems have "\<not> adds_to doc op" "list_all (\<lambda>op. \<not> adds_to doc op) ops"
    by simp_all
  moreover from this(1) Cons.prems(2) have "doc \<notin> entry_owner ` set (entries (apply_op idx op))"
    by (rule owners_apply_op)
  ultimately show ?case using Cons.IH by simp
qed

lemma delete_absent:
  assumes "doc \<notin> entry_owner ` set (entries idx)"
  shows "delete doc idx = idx"
proof -
  have "filter (\<lambda>e. entry_owner e \<noteq> doc) (entries idx) = entries idx"
    using assms by (auto intro: filter_True)
  then show ?thesis by (simp add: delete_def)
qed

text \<open>
  C5. After \<open>delete(doc)\<close>, whatever batches of other documents are added and whatever
  is deleted afterwards, no \<open>search\<close>, for any query vector and any \<open>k\<close>, returns a
  result owned by \<open>doc\<close>. \<open>delete\<close> has no error result; on an index without entries of
  \<open>doc\<close> it returns the index unchanged, so a second deletion changes nothing. The
  front end asks for the deletion with \<open>DELETE /documents/{id}\<close>.
\<close>

theorem deleted_document_never_returned:
  assumes "list_all (\<lambda>op. \<not> adds_to doc op) ops"
    and "search q k (foldl apply_op (delete doc idx) ops) = Inr rs"
  shows "list_all (\<lambda>r. result_owner r \<noteq> doc) rs
       \<and> (list_all (\<lambda>e. entry_owner e \<noteq> doc) (entries idx) \<longrightarrow> delete doc idx = idx)
       \<and> delete doc (delete doc idx) = delete doc idx
       \<and> delete_request doc
           = \<lparr>req_method = DELETE, url = js ''/documents/'' @ doc, body = NoBody\<rparr>"
proof -
  have gone: "doc \<notin> entry_owner ` set (entries (delete doc idx))"
    by (simp add: owners_delete)
  then have "doc \<notin> entry_owner ` set (entries (foldl apply_op (delete doc idx) ops))"
    using assms(1) by (intro owners_foldl)
  then have "\<And>r. r \<in> set rs \<Longrightarrow> result_owner r \<noteq> doc"
    using search_owners [OF assms(2)] by metis
  then have 1: "list_all (\<lambda>r. result_owner r \<noteq> doc) rs"
    by (simp add: list_all_iff)
  have 2: "list_all (\<lambda>e. entry_owner e \<noteq> doc) (entries idx) \<longrightarrow> delete doc idx = idx"
    by (auto simp: list_all_iff intro!: delete_absent)
  have 3: "delete doc (delete doc idx) = delete doc idx"
    using gone by (rule delete_absent)
  have 4: "delete_request doc
      = \<lparr>req_method = DELETE, url = js ''/documents/'' @ doc, body = NoBody\<rparr>"
    by (simp add: delete_request_def)
  from 1 2 3 4 show ?thesis by simp
qed

lemma axis_similarity:
  "similarity [1, 0] [1, 0] = 1" "similarity [1, 0] [0, 1] = 1 / 2"
  by (simp_all add: similarity_def cosine_def dot_def)

theorem deleted_document_never_returned_witness:
  "list_all (\<lambda>op. \<not> adds_to doc_a op) [Add doc_b [(chunk_b, [1, 0])]]
   \<and> search [1, 0] 5 (foldl apply_op (delete doc_a index_ab) [Add doc_b [(chunk_b, [1, 0])]])
       = Inr [\<lparr>result_owner = doc_b, result_ordinal = 0, score = 1, result_text = ''beta'',
               result_metadata = chunk_b\<rparr>,
              \<lparr>result_owner = doc_b, result_ordinal = 0, score = 1 / 2, result_text = ''beta'',
               result_metadata = chunk_b\<rparr>]
   \<and> list_all (\<lambda>r. result_owner r \<noteq> doc_a)
        [\<lparr>result_owner = doc_b, result_ordinal = 0, score = 1, result_text = ''beta'',
          result_metadata = chunk_b\<rparr>,
         \<lparr>result_owner = doc_b, result_ordinal = 0, score = 1 / 2, result_text = ''beta'',
          result_metadata = chunk_b\<rparr>]"
proof -
  have h1: "list_all (\<lambda>op. \<not> adds_to doc_a op) [Add doc_b [(chunk_b, [1, 0])]]"
    by (simp add: doc_a_def doc_b_def js_def)
  have h2: "search [1, 0] 5 (foldl apply_op (delete doc_a index_ab) [Add doc_b [(chunk_b, [1, 0])]])
       = Inr [\<lparr>result_owner = doc_b, result_ordinal = 0, score = 1, result_text = ''beta'',
               result_metadata = chunk_b\<rparr>,
              \<lparr>result_owner = doc_b, result_ordinal = 0, score = 1 / 2, result_text = ''beta'',
               result_metadata = chunk_b\<rparr>]"
    by (simp add: search_def ranked_def delete_def add_def index_ab_def to_result_def
        axis_similarity doc_a_def doc_b_def js_def chunk_b_def)
  from deleted_document_never_returned [OF h1 h2] h1 h2 show ?thesis
    by (simp only: simp_thms)
qed

subsection \<open>Retrieval restricted to allowed documents\<close>

lemma filter_ranked:
  "filter (\<lambda>r. result_owner r \<in> set ids) (ranked q es)
     = ranked q (filter (\<lambda>e. entry_owner e \<in> set ids) es)"
proof -
  have "filter (\<lambda>r. result_owner r \<in> set ids) (ranked q es)
      = sort_key (\<lambda>r. - score r) (filter (\<lambda>r. result_owner r \<in> set ids) (map (to_result q) es))"
    unfolding ranked_def by (rule filter_sort)
  also have "filter (\<lambda>r. result_owner r \<in> set ids) (map (to_result q) es)
      = map (to_result q) (filter (\<lambda>e. entry_owner e \<in> set ids) es)"
    by (simp add: filter_map comp_def result_owner_to_result)
  finally show ?thesis by (simp add: ranked_def)
qed

lemma search_everything:
  "entries idx \<noteq> [] \<Longrightarrow> search q (length (entries idx)) idx = Inr (ranked q (entries idx))"
  by (simp add: search_def length_ranked)

lemma retrieve_allowed:
  assumes "ids \<noteq> []" and "embedder query_text = Inr q"
  shows "retrieve embedder aggregate min_similarity idx query_text k (Some ids) =
     Inr (if list_all (\<lambda>r. score r < min_similarity) (top_allowed q k ids idx) then ([], 0)
          else (top_allowed q k ids idx, aggregate (map score (top_allowed q k ids idx))))"
proof (cases "entries idx = []")
  case True
  then have "top_allowed q k ids idx = []" by (simp add: top_allowed_def ranked_def)
  with True assms show ?thesis by (simp add: retrieve_def search_def)
next
  case False
  then show ?thesis
    using assms
    by (auto simp: retrieve_def search_everything filter_ranked top_allowed_def Let_def)
qed

lemma top_allowed_native:
  "search q (case k of None \<Rightarrow> 5 | Some n \<Rightarrow> n) (restrict ids idx) =
     (if entries (restrict ids idx) = [] then Inl IndexEmptyError
      else Inr (top_allowed q k ids idx))"
  by (simp add: search_def restrict_def top_allowed_def)

lemma top_allowed_owned: "r \<in> set (top_allowed q k ids idx) \<Longrightarrow> result_owner r \<in> set ids"
proof -
  assume "r \<in> set (top_allowed q k ids idx)"
  then have "r \<in> set (ranked q (filter (\<lambda>e. entry_owner e \<in> set ids) (entries idx)))"
    unfolding top_allowed_def by (rule in_set_takeD)
  then show ?thesis
    by (auto simp: ranked_def result_owner_to_result)
qed

lemma length_top_allowed:
  "length (top_allowed q k ids idx) =
     min (case k of None \<Rightarrow> 5 | Some n \<Rightarrow> n)
         (length (filter (\<lambda>e. entry_owner e \<in> set ids) (entries idx)))"
  by (simp add: top_allowed_def length_ranked min.commute)

lemma sendMessage_request:
  assumes "trim input \<noteq> []" and "\<not> loading s"
  shows "requests (snd (sendMessage server tu tr input sel s)) = requests s @ [chat_request input sel]"
  using assms
  by (simp add: sendMessage_def sendMessage_from_def render_def sendMessage_begin_def
      sendMessage_settle_def setMessages_def chat_request_default Let_def split: sum.splits)

lemma handleSendMessage_request:
  assumes "trim input \<noteq> []" and "\<not> loading s"
  shows "requests (snd (snd (handleSendMessage server tu tr
            (\<lparr>inputValue = input, selectedDocuments = ids\<rparr>, s))))
         = requests s @ [chat_request input (Some ids)]"
proof -
  obtain r s' where run: "sendMessage server tu tr input (Some ids) s = (r, s')"
    by (cases "sendMessage server tu tr input (Some ids) s")
  then have "requests s' = requests s @ [chat_request input (Some ids)]"
    using sendMessage_request [OF assms, of server tu tr "Some ids"] by simp
  then show ?thesis
    using assms run
    by (simp add: handleSendMessage_def handleSendMessage_from_def sendMessage_def render_def)
qed

text \<open>
  C7. With a non-empty \<open>allowed_document_ids\<close> and a query the embedding capability
  embeds, every result of \<open>retrieve\<close> is owned by an allowed document, and the results
  are the top \<open>k\<close> within the allowed subset (empty when all of them score below the
  threshold): what a search over the allowed entries alone returns, as many as \<open>k\<close> and
  the allowed entries permit, however many better chunks other documents hold. On the
  client, the \<open>document_ids\<close> of the \<open>POST /chat\<close> request are the ids handed to
  \<open>sendMessage\<close>, which \<open>handleSendMessage\<close> takes from the page's selection.
\<close>

theorem allowed_documents_restrict_results:
  assumes "ids \<noteq> []" and "embedder query_text = Inr q"
  shows "\<exists>rs c.
      retrieve embedder aggregate min_similarity idx query_text k (Some ids) = Inr (rs, c)
    \<and> list_all (\<lambda>r. result_owner r \<in> set ids) rs
    \<and> rs = (if list_all (\<lambda>r. score r < min_similarity) (top_allowed q k ids idx) then []
            else top_allowed q k ids idx)
    \<and> (rs \<noteq> [] \<longrightarrow>
          search q (case k of None \<Rightarrow> 5 | Some n \<Rightarrow> n) (restrict ids idx) = Inr rs
        \<and> length rs = min (case k of None \<Rightarrow> 5 | Some n \<Rightarrow> n)
                         (length (filter (\<lambda>e. entry_owner e \<in> set ids) (entries idx))))
    \<and> chat_request input (Some ids)
        = \<lparr>req_method = POST, url = js ''/chat'', body = ChatBody input ids\<rparr>
    \<and> (trim input \<noteq> [] \<and> \<not> loading s \<longrightarrow>
          requests (snd (sendMessage server tu tr input (Some ids) s))
            = requests s @ [chat_request input (Some ids)]
        \<and> requests (snd (snd (handleSendMessage server tu tr
              (\<lparr>inputValue = input, selectedDocuments = ids\<rparr>, s))))
            = requests s @ [chat_request input (Some ids)])"
proof -
  define top where "top = top_allowed q k ids idx"
  define rs where "rs = (if list_all (\<lambda>r. score r < min_similarity) top then [] else top)"
  define c where "c = (if list_all (\<lambda>r. score r < min_similarity) top then 0
                       else aggregate (map score top))"
  have run: "retrieve embedder aggregate min_similarity idx query_text k (Some ids) = Inr (rs, c)"
    using retrieve_allowed [where embedder = embedder and q = q, OF assms,
        of aggregate min_similarity idx k]
    by (simp add: rs_def c_def top_def)
  have sub: "set rs \<subseteq> set top"
    by (simp add: rs_def)
  then have owned: "list_all (\<lambda>r. result_owner r \<in> set ids) rs"
    unfolding top_def list_all_iff using top_allowed_owned by blast
  have native: "rs \<noteq> [] \<longrightarrow>
      search q (case k of None \<Rightarrow> 5 | Some n \<Rightarrow> n) (restrict ids idx) = Inr rs
      \<and> length rs = min (case k of None \<Rightarrow> 5 | Some n \<Rightarrow> n)
                       (length (filter (\<lambda>e. entry_owner e \<in> set ids) (entries idx)))"
  proof
    assume ne: "rs \<noteq> []"
    then have eq: "rs = top" by (simp add: rs_def split: if_splits)
    with ne have "top \<noteq> []" by simp
    then have "entries (restrict ids idx) \<noteq> []"
      by (auto simp: top_def top_allowed_def restrict_def ranked_def)
    then show "search q (case k of None \<Rightarrow> 5 | Some n \<Rightarrow> n) (restrict ids idx) = Inr rs
      \<and> length rs = min (case k of None \<Rightarrow> 5 | Some n \<Rightarrow> n)
                       (length (filter (\<lambda>e. entry_owner e \<in> set ids) (entries idx)))"
      using eq by (simp add: top_allowed_native length_top_allowed top_def)
  qed
  have client: "chat_request input (Some ids)
      = \<lparr>req_method = POST, url = js ''/chat'', body = ChatBody input ids\<rparr>"
    by (simp add: chat_request_def)
  have sent: "trim input \<noteq> [] \<and> \<not> loading s \<longrightarrow>
          requests (snd (sendMessage server tu tr input (Some ids) s))
            = requests s @ [chat_request input (Some ids)]
        \<and> requests (snd (snd (handleSendMessage server tu tr
              (\<lparr>inputValue = input, selectedDocuments = ids\<rparr>, s))))
            = requests s @ [chat_request input (Some ids)]"
    by (simp add: sendMessage_request handleSendMessage_request)
  show ?thesis
    by (intro exI [of _ rs] exI [of _ c] conjI run owned native client sent)
       (simp add: rs_def top_def)
qed

theorem allowed_documents_restrict_results_witness:
  "[doc_b] \<noteq> [] \<and> axis_embedder ''which?'' = Inr [1, 0]
   \<and> search [1, 0] 1 index_ab
       = Inr [\<lparr>result_owner = doc_a, result_ordinal = 0, score = 1, result_text = ''alpha'',
               result_metadata = chunk_a\<rparr>]
   \<and> retrieve axis_embedder top_score 0 index_ab ''which?'' (Some 1) (Some [doc_b])
       = Inr ([\<lparr>result_owner = doc_b, result_ordinal = 0, score = 1 / 2,
                 result_text = ''beta'', result_metadata = chunk_b\<rparr>], 1 / 2)
   \<and> list_all (\<lambda>r. result_owner r \<in> set [doc_b])
        [\<lparr>result_owner = doc_b, result_ordinal = 0, score = 1 / 2,
          result_text = ''beta'', result_metadata = chunk_b\<rparr>]"
proof -
  have h1: "[doc_b] \<noteq> []" by simp
  have h2: "axis_embedder ''which?'' = Inr [1, 0]"
    by (simp add: axis_embedder_def)
  have global: "search [1, 0] 1 index_ab
       = Inr [\<lparr>result_owner = doc_a, result_ordinal = 0, score = 1, result_text = ''alpha'',
               result_metadata = chunk_a\<rparr>]"
    by (simp add: search_def ranked_def index_ab_def to_result_def axis_similarity chunk_a_def)
  have run: "retrieve axis_embedder top_score 0 index_ab ''which?'' (Some 1) (Some [doc_b])
       = Inr ([\<lparr>result_owner = doc_b, result_ordinal = 0, score = 1 / 2,
                 result_text = ''beta'', result_metadata = chunk_b\<rparr>], 1 / 2)"
    by (simp add: retrieve_def axis_embedder_def search_def ranked_def index_ab_def
        to_result_def axis_similarity doc_a_def doc_b_def js_def top_score_def chunk_b_def)
  from allowed_documents_restrict_results
    [where embedder = axis_embedder and q = "[1, 0]" and aggregate = top_score
       and min_similarity = 0 and idx = index_ab and k = "Some 1", OF h1 h2]
  obtain rs c where
    "retrieve axis_embedder top_score 0 index_ab ''which?'' (Some 1) (Some [doc_b]) = Inr (rs, c)"
    "list_all (\<lambda>r. result_owner r \<in> set [doc_b]) rs"
    by blast
  with run have "list_all (\<lambda>r. result_owner r \<in> set [doc_b])
        [\<lparr>result_owner = doc_b, result_ordinal = 0, score = 1 / 2,
          result_text = ''beta'', result_metadata = chunk_b\<rparr>]"
    by simp
  with h1 h2 global run show ?thesis by (simp only: simp_thms)
qed

end
